theory Spec2Isabelle
  imports Complex_Main
begin

section \<open>Data model\<close>

text \<open>
  The service is a FastAPI application over a relational store (\<^verbatim>\<open>app/models.py\<close>,
  \<^verbatim>\<open>app/api/routes.py\<close>, \<^verbatim>\<open>app/dependencies.py\<close>). Each route is embedded as a
  function from the store's state and the request to a result and the new state. A
  raised exception is a value of \<open>error\<close> on the left of the result; a route that
  raises commits nothing, so it returns the state it was given.

  What the environment supplies is a parameter of the operation that reads it: the
  clock (\<open>now\<close>), the fresh \<^verbatim>\<open>uuid4().hex\<close> of a metric record, the standard library's
  \<^verbatim>\<open>datetime.fromisoformat\<close>, and the store's own behaviour where the dialects differ.
\<close>

subsection \<open>JSON values\<close>

text \<open>
  The payloads are \<^verbatim>\<open>dict[str, Any]\<close> read from JSON. A Python \<^verbatim>\<open>dict\<close> is an
  association list in insertion order whose keys are distinct; \<^verbatim>\<open>None\<close> is \<open>JNull\<close>.
  A Python float is a real here: the rounding of a double, \<^verbatim>\<open>nan\<close> and \<^verbatim>\<open>inf\<close> are
  not modelled. The failure of \<^verbatim>\<open>float(n)\<close> on an integer beyond the range of a double
  is (\<open>to_float\<close> below).
\<close>

datatype json =
    JNull
  | JBool bool
  | JInt int
  | JFloat real
  | JStr string
  | JList "json list"
  | JDict "(string \<times> json) list"

type_synonym document = "(string \<times> json) list"

text \<open>\<^verbatim>\<open>d.get(k)\<close>: the value, or \<^verbatim>\<open>None\<close> when the key is missing.\<close>

definition py_get :: "document \<Rightarrow> string \<Rightarrow> json" where
  "py_get d k = (case map_of d k of None \<Rightarrow> JNull | Some v \<Rightarrow> v)"

text \<open>\<^verbatim>\<open>d.get(k, default)\<close>.\<close>

definition py_get_default :: "document \<Rightarrow> string \<Rightarrow> json \<Rightarrow> json" where
  "py_get_default d k dflt = (case map_of d k of None \<Rightarrow> dflt | Some v \<Rightarrow> v)"

text \<open>Python's truth value of a JSON value, as \<^verbatim>\<open>or\<close> and \<^verbatim>\<open>not\<close> test it.\<close>

fun truthy :: "json \<Rightarrow> bool" where
  "truthy JNull = False"
| "truthy (JBool b) = b"
| "truthy (JInt n) = (n \<noteq> 0)"
| "truthy (JFloat x) = (x \<noteq> 0)"
| "truthy (JStr s) = (s \<noteq> [])"
| "truthy (JList xs) = (xs \<noteq> [])"
| "truthy (JDict d) = (d \<noteq> [])"

text \<open>\<^verbatim>\<open>a or b\<close>.\<close>

definition py_or :: "json \<Rightarrow> json \<Rightarrow> json" where
  "py_or a b = (if truthy a then a else b)"

subsection \<open>Errors\<close>

text \<open>
  \<open>HTTPException code detail\<close> is FastAPI's exception as the routes raise it.
  \<open>RequestValidationError\<close> is FastAPI's rejection (HTTP 422) of a parameter that breaks
  its declared constraint. The others are exceptions no handler catches (HTTP 500):
  \<open>AttributeError\<close>, \<open>ValueError\<close> and \<open>OverflowError\<close> are Python's,
  \<open>StatementError\<close> is the store's when it refuses a statement.
\<close>

datatype error =
    HTTPException nat string
  | RequestValidationError
  | AttributeError
  | ValueError
  | OverflowError
  | StatementError

subsection \<open>Tables\<close>

text \<open>
  \<^verbatim>\<open>datetime\<close> with an optional UTC offset in seconds (\<^verbatim>\<open>tzinfo\<close>; \<open>None\<close> is a naive
  datetime).
\<close>

record datetime =
  dt_year :: nat
  dt_month :: nat
  dt_day :: nat
  dt_hour :: nat
  dt_minute :: nat
  dt_second :: nat
  dt_microsecond :: nat
  dt_tzinfo :: "int option"

record user =
  u_id :: int
  u_email :: string

record machine =
  m_id :: int
  m_mac_address :: string
  m_name :: "string option"
  m_type :: string
  m_owner_id :: int
  m_created_at :: datetime
  m_updated_at :: datetime

record machine_configuration =
  c_id :: int
  c_machine_id :: int
  c_raw_payload :: document
  c_created_at :: datetime
  c_updated_at :: datetime

record monitoring_data =
  d_id :: int
  d_machine_id :: int
  d_timestamp :: datetime
  d_metrics :: document
  d_reference_id :: string
  d_created_at :: datetime
  d_updated_at :: datetime

text \<open>The store: one list of rows per table, in insertion order.\<close>

record db =
  machines :: "machine list"
  configurations :: "machine_configuration list"
  monitoring :: "monitoring_data list"

text \<open>The primary key the store gives a new row: one more than the largest in use.\<close>

definition next_id :: "int list \<Rightarrow> int" where
  "next_id ids = foldr max ids 0 + 1"

text \<open>The unique constraint on \<^verbatim>\<open>Machine.mac_address\<close>.\<close>

definition mac_unique :: "db \<Rightarrow> bool" where
  "mac_unique s = distinct (map m_mac_address (machines s))"

section \<open>Machine registry\<close>

text \<open>
  \<^verbatim>\<open>ensure_machine_ownership\<close> (\<^verbatim>\<open>app/dependencies.py\<close>): one query on the MAC address
  and the owner together; \<^verbatim>\<open>session.scalar\<close> gives the first row or \<^verbatim>\<open>None\<close>.
\<close>

definition ensure_machine_ownership :: "db \<Rightarrow> string \<Rightarrow> user \<Rightarrow> error + machine" where
  "ensure_machine_ownership s mac_address usr =
     (case find (\<lambda>m. m_mac_address m = mac_address \<and> m_owner_id m = u_id usr) (machines s) of
        None \<Rightarrow> Inl (HTTPException 404 ''Machine not found'')
      | Some m \<Rightarrow> Inr m)"

text \<open>
  \<^verbatim>\<open>_get_or_create_machine\<close> (\<^verbatim>\<open>app/api/routes.py\<close>). The lookup is by MAC address
  alone. A row is written only when \<^verbatim>\<open>updated\<close> is set or the machine is new; the
  write of an existing row is the ORM's \<^verbatim>\<open>UPDATE ... WHERE id = ?\<close>, which also fires
  \<^verbatim>\<open>onupdate\<close> of \<^verbatim>\<open>updated_at\<close>.
\<close>

definition get_or_create_machine ::
  "db \<Rightarrow> datetime \<Rightarrow> user \<Rightarrow> string \<Rightarrow> string \<Rightarrow> string \<Rightarrow> (error + machine) \<times> db" where
  "get_or_create_machine s now usr mac_address name machine_type =
     (case find (\<lambda>m. m_mac_address m = mac_address) (machines s) of
        Some machine \<Rightarrow>
          if m_owner_id machine \<noteq> u_id usr
          then (Inl (HTTPException 400 ''Machine belongs to another user''), s)
          else
            let updated = (m_name machine \<noteq> Some name \<or> m_type machine \<noteq> machine_type);
                write = (\<lambda>r. r\<lparr>m_name := Some name, m_type := machine_type, m_updated_at := now\<rparr>)
            in if updated
               then (Inr (write machine),
                     s\<lparr>machines := map (\<lambda>r. if m_id r = m_id machine then write r else r) (machines s)\<rparr>)
               else (Inr machine, s)
      | None \<Rightarrow>
          let machine = \<lparr>m_id = next_id (map m_id (machines s)), m_mac_address = mac_address,
                         m_name = Some name, m_type = machine_type, m_owner_id = u_id usr,
                         m_created_at = now, m_updated_at = now\<rparr>
          in (Inr machine, s\<lparr>machines := machines s @ [machine]\<rparr>))"

section \<open>Configuration store\<close>

text \<open>
  \<^verbatim>\<open>MachineConfigPayload\<close> (\<^verbatim>\<open>app/schemas.py\<close>) after validation: the declared fields
  and, since the model allows extras, the undeclared ones in \<open>p_extra\<close>.
\<close>

record machine_config_payload =
  p_name :: string
  p_mac :: string
  p_type :: string
  p_notify :: bool
  p_frequency :: int
  p_start_with_os :: bool
  p_status :: document
  p_extra :: document

text \<open>
  \<^verbatim>\<open>config_data.model_dump(by_alias=True)\<close>: the declared fields under their aliases, in
  the order of declaration, then the extras.
\<close>

definition model_dump :: "machine_config_payload \<Rightarrow> document" where
  "model_dump p =
     [(''Nome'', JStr (p_name p)), (''MAC'', JStr (p_mac p)), (''type'', JStr (p_type p)),
      (''Notificar'', JBool (p_notify p)), (''Frequency'', JInt (p_frequency p)),
      (''iniciarSO'', JBool (p_start_with_os p)), (''status'', JDict (p_status p))]
     @ p_extra p"

text \<open>The exact value of a JSON value that is a number for Python (\<^verbatim>\<open>bool\<close> is a
  subclass of \<^verbatim>\<open>int\<close>). This is what \<^verbatim>\<open>==\<close> compares: no conversion to a float
  takes place there, so nothing can overflow.\<close>

definition number_value :: "json \<Rightarrow> real option" where
  "number_value v =
     (case v of
        JBool b \<Rightarrow> Some (if b then 1 else 0)
      | JInt n \<Rightarrow> Some (of_int n)
      | JFloat x \<Rightarrow> Some x
      | _ \<Rightarrow> None)"

text \<open>
  Python's \<^verbatim>\<open>==\<close> on JSON values: numbers (booleans among them) compare by value,
  lists elementwise, dicts as sets of items whatever their order.
\<close>

fun py_eq :: "json \<Rightarrow> json \<Rightarrow> bool" where
  "py_eq JNull b = (b = JNull)"
| "py_eq (JStr s) b = (b = JStr s)"
| "py_eq (JBool p) b = (number_value b = Some (if p then 1 else 0))"
| "py_eq (JInt n) b = (number_value b = Some (of_int n))"
| "py_eq (JFloat x) b = (number_value b = Some x)"
| "py_eq (JList xs) b = (case b of JList ys \<Rightarrow> list_all2 py_eq xs ys | _ \<Rightarrow> False)"
| "py_eq (JDict d) b =
     (case b of
        JDict e \<Rightarrow>
          length d = length e \<and>
          list_all (\<lambda>(k, v). case map_of e k of None \<Rightarrow> False | Some w \<Rightarrow> py_eq v w) d
      | _ \<Rightarrow> False)"

record config_update_result =
  r_status :: string
  r_data :: document
  r_updated_at :: datetime

record machine_config_response =
  cr_data :: document
  cr_updated_at :: datetime

text \<open>
  \<^verbatim>\<open>update_machine_config\<close>. The route assigns \<^verbatim>\<open>configuration.raw_payload\<close> and
  commits. The ORM's flush compares an assigned attribute with the value it loaded, by
  the column type's \<^verbatim>\<open>compare_values\<close>, which for \<^verbatim>\<open>JSON\<close> is Python's \<^verbatim>\<open>==\<close>; when they
  are equal there is no net change and no \<^verbatim>\<open>UPDATE\<close> is emitted, so the row (its
  \<^verbatim>\<open>updated_at\<close> too) stays as it was. \<^verbatim>\<open>session.refresh\<close> then reads the row back, and
  the response is built from what was read.
\<close>

definition update_machine_config ::
  "db \<Rightarrow> datetime \<Rightarrow> machine_config_payload \<Rightarrow> user \<Rightarrow> (error + config_update_result) \<times> db" where
  "update_machine_config s now config_data current_user =
     (case ensure_machine_ownership s (p_mac config_data) current_user of
        Inl e \<Rightarrow> (Inl e, s)
      | Inr machine \<Rightarrow>
          let raw_payload = model_dump config_data in
          (case find (\<lambda>c. c_machine_id c = m_id machine) (configurations s) of
             Some configuration \<Rightarrow>
               if py_eq (JDict raw_payload) (JDict (c_raw_payload configuration))
               then (Inr \<lparr>r_status = ''success'', r_data = c_raw_payload configuration,
                          r_updated_at = c_updated_at configuration\<rparr>, s)
               else
                 let write = (\<lambda>c. c\<lparr>c_raw_payload := raw_payload, c_updated_at := now\<rparr>)
                 in (Inr \<lparr>r_status = ''success'', r_data = raw_payload, r_updated_at = now\<rparr>,
                     s\<lparr>configurations :=
                         map (\<lambda>c. if c_id c = c_id configuration then write c else c)
                           (configurations s)\<rparr>)
           | None \<Rightarrow>
               let configuration =
                     \<lparr>c_id = next_id (map c_id (configurations s)), c_machine_id = m_id machine,
                      c_raw_payload = raw_payload, c_created_at = now, c_updated_at = now\<rparr>
               in (Inr \<lparr>r_status = ''success'', r_data = raw_payload, r_updated_at = now\<rparr>,
                   s\<lparr>configurations := configurations s @ [configuration]\<rparr>)))"

text \<open>\<^verbatim>\<open>get_machine_config\<close>: a read; the state is not changed.\<close>

definition get_machine_config :: "db \<Rightarrow> string \<Rightarrow> user \<Rightarrow> error + machine_config_response" where
  "get_machine_config s mac current_user =
     (case ensure_machine_ownership s mac current_user of
        Inl e \<Rightarrow> Inl e
      | Inr machine \<Rightarrow>
          (case find (\<lambda>c. c_machine_id c = m_id machine) (configurations s) of
             None \<Rightarrow> Inl (HTTPException 404 ''Configuration not found'')
           | Some configuration \<Rightarrow>
               Inr \<lparr>cr_data = c_raw_payload configuration,
                    cr_updated_at = c_updated_at configuration\<rparr>))"

section \<open>Metrics store\<close>

text \<open>
  \<^verbatim>\<open>update_machine_status\<close>, first statement: the MAC address is
  \<^verbatim>\<open>payload.data.get("machine_info", {}).get("mac") or payload.data.get("mac_address")\<close>.
  The second \<^verbatim>\<open>.get\<close> is a method call on whatever the payload holds under
  \<^verbatim>\<open>machine_info\<close>: of the JSON values only a dict has the method, on any other
  (\<^verbatim>\<open>None\<close>, a string, a number, a list) Python raises \<^verbatim>\<open>AttributeError\<close>.
\<close>

definition payload_mac :: "document \<Rightarrow> error + json" where
  "payload_mac data =
     (case py_get_default data ''machine_info'' (JDict []) of
        JDict machine_info \<Rightarrow> Inr (py_or (py_get machine_info ''mac'') (py_get data ''mac_address''))
      | _ \<Rightarrow> Inl AttributeError)"

text \<open>\<^verbatim>\<open>s.replace(c, new)\<close> for a pattern of one character: every occurrence.\<close>

definition str_replace :: "char \<Rightarrow> string \<Rightarrow> string \<Rightarrow> string" where
  "str_replace c new s = concat (map (\<lambda>x. if x = c then new else [x]) s)"

text \<open>
  The timestamp of the record. \<open>fromisoformat\<close> stands for \<^verbatim>\<open>datetime.fromisoformat\<close>,
  with \<open>None\<close> for its \<^verbatim>\<open>ValueError\<close>, which the route does not catch. \<open>now\<close> is
  \<^verbatim>\<open>datetime.utcnow().replace(tzinfo=timezone.utc)\<close>.
\<close>

definition payload_timestamp ::
  "(string \<Rightarrow> datetime option) \<Rightarrow> datetime \<Rightarrow> document \<Rightarrow> error + datetime" where
  "payload_timestamp fromisoformat now data =
     (case py_get data ''timestamp'' of
        JStr timestamp_str \<Rightarrow>
          (case fromisoformat (str_replace CHR ''Z'' ''+00:00'' timestamp_str) of
             None \<Rightarrow> Inl ValueError
           | Some timestamp \<Rightarrow> Inr timestamp)
      | _ \<Rightarrow> Inr now)"

text \<open>
  The MAC address as the query compares it. The route passes on any truthy value; for
  one that is not a string, \<open>bind_param\<close> is what the database driver makes of it: the
  text it compares with, or \<open>None\<close> when it refuses the value.
\<close>

definition mac_text :: "(json \<Rightarrow> string option) \<Rightarrow> json \<Rightarrow> string option" where
  "mac_text bind_param mac = (case mac of JStr m \<Rightarrow> Some m | _ \<Rightarrow> bind_param mac)"

record status_result =
  sr_status :: string
  sr_reference_id :: string
  sr_timestamp :: datetime

text \<open>
  What SQLite keeps of a datetime written to a \<^verbatim>\<open>DateTime\<close> column: the fields of the
  wall clock, as text, without the offset; it reads a naive datetime back.
\<close>

definition sqlite_datetime :: "datetime \<Rightarrow> datetime" where
  "sqlite_datetime t = t\<lparr>dt_tzinfo := None\<rparr>"

text \<open>
  \<^verbatim>\<open>update_machine_status\<close>. \<open>reference_id\<close> is the column default \<^verbatim>\<open>uuid.uuid4().hex\<close>
  drawn at the insert. \<open>column\<close> is what the store gives back for a datetime written
  to a \<^verbatim>\<open>DateTime(timezone=True)\<close> column: the route answers from the row as
  \<^verbatim>\<open>session.refresh\<close> read it, not from the value it computed. On SQLite that is
  \<open>sqlite_datetime\<close>; a store with a time zone type keeps the instant.
\<close>

definition update_machine_status ::
  "(string \<Rightarrow> datetime option) \<Rightarrow> (json \<Rightarrow> string option) \<Rightarrow> (datetime \<Rightarrow> datetime) \<Rightarrow>
     db \<Rightarrow> datetime \<Rightarrow> string \<Rightarrow> document \<Rightarrow> user \<Rightarrow> (error + status_result) \<times> db" where
  "update_machine_status fromisoformat bind_param column s now reference_id data current_user =
     (case payload_mac data of
        Inl e \<Rightarrow> (Inl e, s)
      | Inr mac \<Rightarrow>
          if \<not> truthy mac
          then (Inl (HTTPException 400 ''MAC address missing in payload''), s)
          else
            (case mac_text bind_param mac of
               None \<Rightarrow> (Inl StatementError, s)
             | Some mac_address \<Rightarrow>
                 (case ensure_machine_ownership s mac_address current_user of
                    Inl e \<Rightarrow> (Inl e, s)
                  | Inr machine \<Rightarrow>
                      (case payload_timestamp fromisoformat now data of
                         Inl e \<Rightarrow> (Inl e, s)
                       | Inr timestamp \<Rightarrow>
                           let metric_record =
                                 \<lparr>d_id = next_id (map d_id (monitoring s)),
                                  d_machine_id = m_id machine, d_timestamp = column timestamp,
                                  d_metrics = data, d_reference_id = reference_id,
                                  d_created_at = column now, d_updated_at = column now\<rparr>
                           in (Inr \<lparr>sr_status = ''success'', sr_reference_id = reference_id,
                                    sr_timestamp = d_timestamp metric_record\<rparr>,
                               s\<lparr>monitoring := monitoring s @ [metric_record]\<rparr>)))))"

text \<open>
  \<^verbatim>\<open>stmt.limit(limit)\<close> renders \<^verbatim>\<open>LIMIT ?\<close> with the caller's integer. The dialects
  differ on a negative one: SQLite (the default \<^verbatim>\<open>database_url\<close> of
  \<^verbatim>\<open>app/core/config.py\<close>, and the test suite's) reads it as no limit at all,
  PostgreSQL (the \<^verbatim>\<open>JSONB\<close> variant of \<^verbatim>\<open>app/models.py\<close>) refuses the statement.
\<close>

datatype backend = SQLite | PostgreSQL

definition limit_rows :: "backend \<Rightarrow> int \<Rightarrow> 'a list \<Rightarrow> error + 'a list" where
  "limit_rows b n rows =
     (if 0 \<le> n then Inr (take (nat n) rows)
      else case b of SQLite \<Rightarrow> Inr rows | PostgreSQL \<Rightarrow> Inl StatementError)"

record monitoring_data_read =
  mr_timestamp :: datetime
  mr_metrics :: document
  mr_reference_id :: string

definition model_validate :: "monitoring_data \<Rightarrow> monitoring_data_read" where
  "model_validate r =
     \<lparr>mr_timestamp = d_timestamp r, mr_metrics = d_metrics r, mr_reference_id = d_reference_id r\<rparr>"

text \<open>The \<^verbatim>\<open>WHERE\<close> clause of \<^verbatim>\<open>list_machine_metrics\<close>. A \<^verbatim>\<open>datetime\<close> is always truthy,
  so \<^verbatim>\<open>if start:\<close> asks whether the bound was given. \<open>key\<close> is the order in which the
  store compares timestamps.\<close>

definition in_window ::
  "(datetime \<Rightarrow> 'k::linorder) \<Rightarrow> datetime option \<Rightarrow> datetime option \<Rightarrow> datetime \<Rightarrow> bool" where
  "in_window key start end t =
     ((case start of None \<Rightarrow> True | Some a \<Rightarrow> key a \<le> key t) \<and>
      (case end of None \<Rightarrow> True | Some b \<Rightarrow> key t \<le> key b))"

text \<open>
  \<^verbatim>\<open>list_machine_metrics\<close>. \<^verbatim>\<open>Query(default=100, le=1000)\<close> declares an upper bound
  only; FastAPI rejects a larger \<^verbatim>\<open>limit\<close> before the route runs. The statement is
  \<^verbatim>\<open>WHERE ... ORDER BY timestamp DESC LIMIT ?\<close>; SQL leaves the order of rows with equal
  timestamps open, the model puts the later insert first.
\<close>

definition list_machine_metrics ::
  "(datetime \<Rightarrow> 'k::linorder) \<Rightarrow> backend \<Rightarrow> db \<Rightarrow> string \<Rightarrow> datetime option \<Rightarrow> datetime option \<Rightarrow>
     int \<Rightarrow> user \<Rightarrow> error + monitoring_data_read list" where
  "list_machine_metrics key b s mac start end limit current_user =
     (if limit > 1000 then Inl RequestValidationError
      else
        case ensure_machine_ownership s mac current_user of
          Inl e \<Rightarrow> Inl e
        | Inr machine \<Rightarrow>
            let rows = filter (\<lambda>r. d_machine_id r = m_id machine \<and>
                                   in_window key start end (d_timestamp r)) (monitoring s);
                ordered = rev (sort_key (\<lambda>r. key (d_timestamp r)) rows)
            in (case limit_rows b limit ordered of
                  Inl e \<Rightarrow> Inl e
                | Inr records \<Rightarrow> Inr (map model_validate records)))"

section \<open>Aggregation engine\<close>

text \<open>
  \<^verbatim>\<open>float(n)\<close> of an integer raises \<^verbatim>\<open>OverflowError\<close> when \<open>n\<close> does not round to a
  double: from \<open>2 ^ 1024 - 2 ^ 970\<close> on in absolute value (half way between the largest
  double and \<open>2 ^ 1024\<close>).
\<close>

definition float_overflow :: "int \<Rightarrow> bool" where
  "float_overflow n = (2 ^ 1024 - 2 ^ 970 \<le> \<bar>n\<bar>)"

text \<open>
  \<^verbatim>\<open>isinstance(v, (int, float))\<close>, and then \<^verbatim>\<open>float(v)\<close>: \<open>None\<close> when the test fails;
  the float, or the exception of the conversion, when it holds. \<^verbatim>\<open>bool\<close> is a subclass
  of \<^verbatim>\<open>int\<close>, so the test holds of a boolean, and its float is 1.0 or 0.0.
\<close>

definition to_float :: "json \<Rightarrow> (error + real) option" where
  "to_float v =
     (case v of
        JBool b \<Rightarrow> Some (Inr (if b then 1 else 0))
      | JInt n \<Rightarrow> Some (if float_overflow n then Inl OverflowError else Inr (of_int n))
      | JFloat x \<Rightarrow> Some (Inr x)
      | _ \<Rightarrow> None)"

text \<open>
  The inner loop of \<^verbatim>\<open>aggregate_metrics\<close> over the candidates of a nested value:
  the first candidate whose value is a number is appended, and the loop breaks.
\<close>

fun probe :: "document \<Rightarrow> string list \<Rightarrow> real list \<Rightarrow> error + real list" where
  "probe d [] values = Inr values"
| "probe d (candidate # rest) values =
     (case to_float (py_get d candidate) of
        Some (Inr x) \<Rightarrow> Inr (values @ [x])
      | Some (Inl e) \<Rightarrow> Inl e
      | None \<Rightarrow> probe d rest values)"

text \<open>The body of the loop over the records, for one key: \<open>values\<close> before and after.\<close>

definition scan_record :: "string \<Rightarrow> real list \<Rightarrow> monitoring_data \<Rightarrow> error + real list" where
  "scan_record key values record =
     (let v = py_get (d_metrics record) key in
      case to_float v of
        Some (Inr x) \<Rightarrow> Inr (values @ [x])
      | Some (Inl e) \<Rightarrow> Inl e
      | None \<Rightarrow>
          (case v of
             JDict d \<Rightarrow> probe d [''usage'', ''percent'', ''value''] values
           | _ \<Rightarrow> Inr values))"

text \<open>The loop over the records; an exception ends it.\<close>

fun scan_records :: "string \<Rightarrow> real list \<Rightarrow> monitoring_data list \<Rightarrow> error + real list" where
  "scan_records key values [] = Inr values"
| "scan_records key values (record # rest) =
     (case scan_record key values record of
        Inl e \<Rightarrow> Inl e
      | Inr values' \<Rightarrow> scan_records key values' rest)"

definition collect_values :: "string \<Rightarrow> monitoring_data list \<Rightarrow> error + real list" where
  "collect_values key records = scan_records key [] records"

text \<open>\<^verbatim>\<open>min\<close>, \<^verbatim>\<open>max\<close> and \<^verbatim>\<open>statistics.mean\<close> of a list that is not empty.\<close>

definition py_min :: "real list \<Rightarrow> real" where
  "py_min values = foldl (\<lambda>m x. if x < m then x else m) (hd values) (tl values)"

definition py_max :: "real list \<Rightarrow> real" where
  "py_max values = foldl (\<lambda>m x. if m < x then x else m) (hd values) (tl values)"

definition mean :: "real list \<Rightarrow> real" where
  "mean values = sum_list values / real (length values)"

record metrics_aggregate =
  metric :: string
  minimum :: "real option"
  maximum :: "real option"
  average :: "real option"

text \<open>The body of the loop over the keys: the entry appended for one key.\<close>

definition aggregate_key :: "monitoring_data list \<Rightarrow> string \<Rightarrow> error + metrics_aggregate" where
  "aggregate_key records key =
     (case collect_values key records of
        Inl e \<Rightarrow> Inl e
      | Inr values \<Rightarrow>
          if values = []
          then Inr \<lparr>metric = key, minimum = None, maximum = None, average = None\<rparr>
          else Inr \<lparr>metric = key, minimum = Some (py_min values), maximum = Some (py_max values),
                    average = Some (mean values)\<rparr>)"

text \<open>The loop over the keys, in the caller's order; an exception ends it.\<close>

fun aggregate_keys :: "monitoring_data list \<Rightarrow> string list \<Rightarrow> error + metrics_aggregate list" where
  "aggregate_keys records [] = Inr []"
| "aggregate_keys records (key # rest) =
     (case aggregate_key records key of
        Inl e \<Rightarrow> Inl e
      | Inr entry \<Rightarrow>
          (case aggregate_keys records rest of
             Inl e \<Rightarrow> Inl e
           | Inr entries \<Rightarrow> Inr (entry # entries)))"

text \<open>The rows \<^verbatim>\<open>aggregate_metrics\<close> selects: all of the machine's, with no time filter.\<close>

definition machine_records :: "db \<Rightarrow> machine \<Rightarrow> monitoring_data list" where
  "machine_records s machine = filter (\<lambda>r. d_machine_id r = m_id machine) (monitoring s)"

definition aggregate_metrics ::
  "db \<Rightarrow> string \<Rightarrow> string list \<Rightarrow> user \<Rightarrow> error + metrics_aggregate list" where
  "aggregate_metrics s mac metric_keys current_user =
     (case ensure_machine_ownership s mac current_user of
        Inl e \<Rightarrow> Inl e
      | Inr machine \<Rightarrow> aggregate_keys (machine_records s machine) metric_keys)"

text \<open>
  The specification's reading of what one record contributes for a key, written from
  its words and not from the code: a numeric scalar (an integer, a float, and for
  Python a boolean as 1 or 0) itself; of a nested value the first numeric field among
  \<^verbatim>\<open>usage\<close>, \<^verbatim>\<open>percent\<close>, \<^verbatim>\<open>value\<close>; nothing otherwise.
\<close>

fun spec_number :: "json \<Rightarrow> real option" where
  "spec_number (JInt n) = Some (of_int n)"
| "spec_number (JFloat x) = Some x"
| "spec_number (JBool True) = Some 1"
| "spec_number (JBool False) = Some 0"
| "spec_number JNull = None"
| "spec_number (JStr s) = None"
| "spec_number (JList xs) = None"
| "spec_number (JDict d) = None"

definition spec_nested :: "document \<Rightarrow> real list" where
  "spec_nested d =
     (case spec_number (py_get d ''usage'') of
        Some x \<Rightarrow> [x]
      | None \<Rightarrow>
          (case spec_number (py_get d ''percent'') of
             Some x \<Rightarrow> [x]
           | None \<Rightarrow>
               (case spec_number (py_get d ''value'') of
                  Some x \<Rightarrow> [x]
                | None \<Rightarrow> [])))"

definition spec_contribution :: "json \<Rightarrow> real list" where
  "spec_contribution v =
     (case spec_number v of
        Some x \<Rightarrow> [x]
      | None \<Rightarrow> (case v of JDict d \<Rightarrow> spec_nested d | _ \<Rightarrow> []))"

text \<open>
  A condition under which the scan of a value raises nothing: neither the value nor a
  candidate field of it is an integer beyond the range of a double.
\<close>

definition in_double_range :: "json \<Rightarrow> bool" where
  "in_double_range v = (case v of JInt n \<Rightarrow> \<not> float_overflow n | _ \<Rightarrow> True)"

definition readable :: "json \<Rightarrow> bool" where
  "readable v =
     (case v of
        JInt n \<Rightarrow> \<not> float_overflow n
      | JDict d \<Rightarrow> in_double_range (py_get d ''usage'') \<and> in_double_range (py_get d ''percent'') \<and>
                  in_double_range (py_get d ''value'')
      | _ \<Rightarrow> True)"

section \<open>A reference instance of the timestamp parser\<close>

text \<open>
  \<^verbatim>\<open>datetime.fromisoformat\<close> belongs to the standard library and is a parameter of
  the model. Where a concrete parser is needed, this one stands in: it reads the form
  \<^verbatim>\<open>YYYY-MM-DDTHH:MM:SS+HH:MM\<close> (or \<^verbatim>\<open>-HH:MM\<close>), which \<^verbatim>\<open>isoformat()\<close> writes for an
  aware datetime at full seconds and every CPython since 3.7 reads as below, checks the
  ranges the \<^verbatim>\<open>datetime\<close> constructor checks, and refuses everything else (CPython reads
  further forms).
\<close>

definition parse_digits :: "string \<Rightarrow> nat option" where
  "parse_digits s =
     (if s \<noteq> [] \<and> list_all (\<lambda>c. c \<in> set ''0123456789'') s
      then Some (foldl (\<lambda>n c. 10 * n + (of_char c - 48)) 0 s)
      else None)"

definition days_in_month :: "nat \<Rightarrow> nat \<Rightarrow> nat" where
  "days_in_month y m =
     (if m = 2 then (if y mod 4 = 0 \<and> (y mod 100 \<noteq> 0 \<or> y mod 400 = 0) then 29 else 28)
      else if m \<in> {4, 6, 9, 11} then 30 else 31)"

definition fromisoformat_seconds :: "string \<Rightarrow> datetime option" where
  "fromisoformat_seconds s =
     (if length s = 25 \<and> s ! 4 = CHR ''-'' \<and> s ! 7 = CHR ''-'' \<and> s ! 10 = CHR ''T'' \<and>
         s ! 13 = CHR '':'' \<and> s ! 16 = CHR '':'' \<and> s ! 19 \<in> {CHR ''+'', CHR ''-''} \<and>
         s ! 22 = CHR '':''
      then
        Option.bind (parse_digits (take 4 s)) (\<lambda>year.
        Option.bind (parse_digits (take 2 (drop 5 s))) (\<lambda>month.
        Option.bind (parse_digits (take 2 (drop 8 s))) (\<lambda>day.
        Option.bind (parse_digits (take 2 (drop 11 s))) (\<lambda>hour.
        Option.bind (parse_digits (take 2 (drop 14 s))) (\<lambda>minute.
        Option.bind (parse_digits (take 2 (drop 17 s))) (\<lambda>second.
        Option.bind (parse_digits (take 2 (drop 20 s))) (\<lambda>oh.
        Option.bind (parse_digits (take 2 (drop 23 s))) (\<lambda>om.
          if 1 \<le> year \<and> 1 \<le> month \<and> month \<le> 12 \<and> 1 \<le> day \<and> day \<le> days_in_month year month \<and>
             hour < 24 \<and> minute < 60 \<and> second < 60 \<and> oh < 24 \<and> om < 60
          then Some \<lparr>dt_year = year, dt_month = month, dt_day = day, dt_hour = hour,
                     dt_minute = minute, dt_second = second, dt_microsecond = 0,
                     dt_tzinfo = Some ((if s ! 19 = CHR ''-'' then - 1 else 1) *
                                       (int oh * 3600 + int om * 60))\<rparr>
          else None))))))))
      else None)"

section \<open>Example states\<close>

text \<open>The values of the test suite's flow (\<^verbatim>\<open>tests/test_api.py\<close>), and a second user.\<close>

definition t0 :: datetime where
  "t0 = \<lparr>dt_year = 2024, dt_month = 5, dt_day = 20, dt_hour = 10, dt_minute = 33, dt_second = 0,
         dt_microsecond = 0, dt_tzinfo = Some 0\<rparr>"

definition t1 :: datetime where
  "t1 = \<lparr>dt_year = 2024, dt_month = 5, dt_day = 20, dt_hour = 10, dt_minute = 34, dt_second = 0,
         dt_microsecond = 0, dt_tzinfo = Some 0\<rparr>"

definition alice :: user where
  "alice = \<lparr>u_id = 1, u_email = ''ops@example.com''\<rparr>"

definition bob :: user where
  "bob = \<lparr>u_id = 2, u_email = ''dev@example.com''\<rparr>"

definition desktop :: machine where
  "desktop = \<lparr>m_id = 1, m_mac_address = ''AA:BB:CC:DD:EE:FF'', m_name = Some ''Desktop-01'',
              m_type = ''pc'', m_owner_id = 1, m_created_at = t0, m_updated_at = t0\<rparr>"

definition empty_db :: db where
  "empty_db = \<lparr>machines = [], configurations = [], monitoring = []\<rparr>"

definition db1 :: db where
  "db1 = \<lparr>machines = [desktop], configurations = [], monitoring = []\<rparr>"

text \<open>The metric document of the test suite and its record, and a record with boolean
  readings.\<close>

definition metric_doc :: document where
  "metric_doc =
     [(''timestamp'', JStr ''2024-05-20T10:33:00Z''),
      (''machine_info'', JDict [(''mac'', JStr ''AA:BB:CC:DD:EE:FF''), (''hostname'', JStr ''desktop'')]),
      (''cpu'', JFloat (523 / 10)), (''memory'', JFloat (614 / 10)),
      (''disk'', JDict [(''usage'', JFloat (739 / 10))])]"

definition metric1 :: monitoring_data where
  "metric1 = \<lparr>d_id = 1, d_machine_id = 1, d_timestamp = t0, d_metrics = metric_doc,
              d_reference_id = ''ref-1'', d_created_at = t0, d_updated_at = t0\<rparr>"

definition flags_doc :: document where
  "flags_doc = [(''online'', JBool True), (''disk'', JDict [(''usage'', JBool False)])]"

definition metric_flags :: monitoring_data where
  "metric_flags = \<lparr>d_id = 2, d_machine_id = 1, d_timestamp = t1, d_metrics = flags_doc,
              d_reference_id = ''ref-2'', d_created_at = t1, d_updated_at = t1\<rparr>"

text \<open>A record with an integer beyond the range of a double under \<^verbatim>\<open>cpu\<close>, and a state
  holding it; a record with a number and a boolean side by side in a nested value; a
  record with the number 3 where \<open>metric_flags\<close> has a boolean.\<close>

definition metric_huge :: monitoring_data where
  "metric_huge = \<lparr>d_id = 1, d_machine_id = 1, d_timestamp = t0,
                  d_metrics = [(''cpu'', JInt (2 ^ 1024))],
                  d_reference_id = ''ref-1'', d_created_at = t0, d_updated_at = t0\<rparr>"

definition db_huge :: db where
  "db_huge = \<lparr>machines = [desktop], configurations = [], monitoring = [metric_huge]\<rparr>"



text \<open>Two configuration payloads that differ in one value of the status map, and the
  state after the first is stored.\<close>

definition config_int :: machine_config_payload where
  "config_int = \<lparr>p_name = ''Desktop Principal'', p_mac = ''AA:BB:CC:DD:EE:FF'', p_type = ''pc'',
                 p_notify = True, p_frequency = 30, p_start_with_os = True,
                 p_status = [(''CPU'', JInt 1)], p_extra = []\<rparr>"

definition config_bool :: machine_config_payload where
  "config_bool = config_int\<lparr>p_status := [(''CPU'', JBool True)]\<rparr>"

definition db_config :: db where
  "db_config = db1\<lparr>configurations :=
     [\<lparr>c_id = 1, c_machine_id = 1, c_raw_payload = model_dump config_int,
       c_created_at = t0, c_updated_at = t0\<rparr>]\<rparr>"

text \<open>A state with two metric records, and the order in which SQLite compares the
  timestamps it stores (as text, \<^verbatim>\<open>YYYY-MM-DD HH:MM:SS.ffffff\<close>, so field by field).\<close>

definition db3 :: db where
  "db3 = \<lparr>machines = [desktop], configurations = [], monitoring = [metric1, metric_flags]\<rparr>"

definition sqlite_key :: "datetime \<Rightarrow> nat" where
  "sqlite_key t =
     (((((dt_year t * 12 + dt_month t) * 31 + dt_day t) * 24 + dt_hour t) * 60 + dt_minute t) * 60
        + dt_second t) * 1000000 + dt_microsecond t"

text \<open>Metric payloads: \<^verbatim>\<open>machine_info\<close> is \<^verbatim>\<open>null\<close>; the MAC address at the top level
  only; a timestamp that is no date.\<close>

definition payload_null_info :: document where
  "payload_null_info = [(''machine_info'', JNull), (''mac_address'', JStr ''AA:BB:CC:DD:EE:FF'')]"

definition payload_top_level :: document where
  "payload_top_level = [(''mac_address'', JStr ''AA:BB:CC:DD:EE:FF'')]"

definition payload_bad_timestamp :: document where
  "payload_bad_timestamp =
     [(''mac_address'', JStr ''AA:BB:CC:DD:EE:FF''), (''timestamp'', JStr ''not-a-date'')]"

section \<open>Lookup lemmas\<close>

lemma find_None_iff_all: "find P xs = None \<longleftrightarrow> (\<forall>x\<in>set xs. \<not> P x)"
  by (induction xs) auto

lemma find_SomeD: "find P xs = Some x \<Longrightarrow> P x \<and> x \<in> set xs"
  by (induction xs) (auto split: if_splits)

lemma find_map_preserved:
  assumes "\<And>x. P (f x) = P x"
  shows "find P (map f xs) = map_option f (find P xs)"
  using assms by (induction xs) auto

lemma find_append_new:
  assumes "find P xs = None" and "P y"
  shows "find P (xs @ [y]) = Some y"
  using assms by (induction xs) (auto split: if_splits)

lemma find_unique_key:
  assumes "distinct (map key xs)" and "x \<in> set xs"
  shows "find (\<lambda>y. key y = key x) xs = Some x"
  using assms by (induction xs) (auto simp: image_iff)

lemma ensure_machine_ownership_not_owned:
  assumes "\<forall>r\<in>set (machines s). m_mac_address r = mac \<longrightarrow> m_owner_id r \<noteq> u_id usr"
  shows "ensure_machine_ownership s mac usr = Inl (HTTPException 404 ''Machine not found'')"
proof -
  have "find (\<lambda>m. m_mac_address m = mac \<and> m_owner_id m = u_id usr) (machines s) = None"
    using assms by (simp add: find_None_iff_all)
  then show ?thesis by (simp add: ensure_machine_ownership_def)
qed

lemma mac_unique_same_row:
  assumes "mac_unique s" and "r \<in> set (machines s)" and "r' \<in> set (machines s)"
    and "m_mac_address r' = m_mac_address r"
  shows "r' = r"
proof -
  have "inj_on m_mac_address (set (machines s))"
    using assms(1) by (simp add: mac_unique_def distinct_map)
  then show ?thesis using assms(2-4) by (auto dest: inj_onD)
qed

lemma find_by_mac:
  assumes "mac_unique s" and "r \<in> set (machines s)"
  shows "find (\<lambda>m. m_mac_address m = m_mac_address r) (machines s) = Some r"
  using assms find_unique_key[of m_mac_address "machines s" r] by (simp add: mac_unique_def)

section \<open>The ownership gate\<close>

text \<open>
  C1. For every user and MAC address, \<open>ensure_machine_ownership\<close> fails with HTTP 404
  and the detail "Machine not found" in a state \<open>s1\<close> that holds no machine with the MAC
  address, and in a state \<open>s2\<close> where the machine with the MAC address exists and is
  owned by another user. The two results are the same value: the same exception, status
  and message. \<open>mac_unique\<close> is the store's unique constraint on the MAC address.
\<close>

theorem ensure_machine_ownership_hides_existence:
  assumes "\<forall>r\<in>set (machines s1). m_mac_address r \<noteq> mac"
    and "mac_unique s2" and "r2 \<in> set (machines s2)" and "m_mac_address r2 = mac"
    and "m_owner_id r2 \<noteq> u_id usr"
  shows "ensure_machine_ownership s1 mac usr = Inl (HTTPException 404 ''Machine not found'') \<and>
         ensure_machine_ownership s2 mac usr = Inl (HTTPException 404 ''Machine not found'')"
proof
  show "ensure_machine_ownership s1 mac usr = Inl (HTTPException 404 ''Machine not found'')"
    using assms(1) by (intro ensure_machine_ownership_not_owned) simp
next
  have "\<forall>r\<in>set (machines s2). m_mac_address r = mac \<longrightarrow> m_owner_id r \<noteq> u_id usr"
    using mac_unique_same_row[OF assms(2,3)] assms(4,5) by auto
  then show "ensure_machine_ownership s2 mac usr = Inl (HTTPException 404 ''Machine not found'')"
    by (rule ensure_machine_ownership_not_owned)
qed

theorem ensure_machine_ownership_hides_existence_witness:
  "mac_unique db1 \<and> desktop \<in> set (machines db1) \<and> m_owner_id desktop \<noteq> u_id bob \<and>
   ensure_machine_ownership empty_db ''AA:BB:CC:DD:EE:FF'' bob =
     Inl (HTTPException 404 ''Machine not found'') \<and>
   ensure_machine_ownership db1 ''AA:BB:CC:DD:EE:FF'' bob =
     Inl (HTTPException 404 ''Machine not found'')"
  using ensure_machine_ownership_hides_existence
    [of empty_db "''AA:BB:CC:DD:EE:FF''" db1 desktop bob]
  by (simp add: empty_db_def db1_def desktop_def bob_def mac_unique_def)

section \<open>Registration\<close>

text \<open>
  C2. In every state where the machine with MAC address \<open>mac\<close> exists and its owner is
  not the user \<open>b\<close>, \<open>get_or_create_machine\<close> for \<open>b\<close> fails with HTTP 400, and the state
  it leaves is the state it found: the stored machine keeps its name, type and owner.
  The error carries the status and a fixed detail, nothing of the machine.
\<close>

theorem get_or_create_machine_ownership_conflict:
  assumes "mac_unique s" and "r \<in> set (machines s)" and "m_mac_address r = mac"
    and "m_owner_id r \<noteq> u_id b"
  shows "get_or_create_machine s now b mac name machine_type =
           (Inl (HTTPException 400 ''Machine belongs to another user''), s)"
  using find_by_mac[OF assms(1,2)] assms(3,4) by (simp add: get_or_create_machine_def)

theorem get_or_create_machine_ownership_conflict_witness:
  "mac_unique db1 \<and> desktop \<in> set (machines db1) \<and> m_owner_id desktop \<noteq> u_id bob \<and>
   get_or_create_machine db1 t1 bob ''AA:BB:CC:DD:EE:FF'' ''Laptop'' ''server'' =
     (Inl (HTTPException 400 ''Machine belongs to another user''), db1)"
  using get_or_create_machine_ownership_conflict
    [of db1 desktop "''AA:BB:CC:DD:EE:FF''" bob t1 "''Laptop''" "''server''"]
  by (simp add: db1_def desktop_def bob_def mac_unique_def)

text \<open>
  C5. \<open>get_or_create_machine\<close> is idempotent: after a call that succeeded, the same call
  again (at any later time \<open>now'\<close>) returns the same machine, its id and its
  \<open>m_updated_at\<close> among the rest, and leaves the state as it is.
\<close>

theorem get_or_create_machine_idempotent:
  assumes "get_or_create_machine s now usr mac name machine_type = (Inr machine, s')"
  shows "get_or_create_machine s' now' usr mac name machine_type = (Inr machine, s')"
proof (cases "find (\<lambda>m. m_mac_address m = mac) (machines s)")
  case None
  then have new: "machine = \<lparr>m_id = next_id (map m_id (machines s)), m_mac_address = mac,
                         m_name = Some name, m_type = machine_type, m_owner_id = u_id usr,
                         m_created_at = now, m_updated_at = now\<rparr>"
    and s': "s' = s\<lparr>machines := machines s @ [machine]\<rparr>"
    using assms by (auto simp: get_or_create_machine_def Let_def)
  have "find (\<lambda>m. m_mac_address m = mac) (machines s') = Some machine"
    using None new s' by (simp add: find_append_new)
  then show ?thesis
    using new by (simp add: get_or_create_machine_def)
next
  case (Some found)
  show ?thesis
  proof (cases "m_name found \<noteq> Some name \<or> m_type found \<noteq> machine_type")
    case False
    then show ?thesis
      using assms Some by (auto simp: get_or_create_machine_def Let_def split: if_splits)
  next
    case True
    define upd where
      "upd = (\<lambda>r::machine. r\<lparr>m_name := Some name, m_type := machine_type, m_updated_at := now\<rparr>)"
    have owner: "m_owner_id found = u_id usr"
      using assms Some by (auto simp: get_or_create_machine_def Let_def split: if_splits)
    have machine: "machine = upd found"
      and s': "s' = s\<lparr>machines := map (\<lambda>r. if m_id r = m_id found then upd r else r) (machines s)\<rparr>"
      using assms Some True owner
      by (auto simp: get_or_create_machine_def Let_def upd_def split: if_splits)
    have "find (\<lambda>m. m_mac_address m = mac) (machines s') =
            map_option (\<lambda>r. if m_id r = m_id found then upd r else r)
              (find (\<lambda>m. m_mac_address m = mac) (machines s))"
      unfolding s' by (simp add: find_map_preserved upd_def)
    then have "find (\<lambda>m. m_mac_address m = mac) (machines s') = Some machine"
      using Some machine by simp
    then show ?thesis
      using machine owner by (simp add: get_or_create_machine_def upd_def)
  qed
qed

theorem get_or_create_machine_idempotent_witness:
  "get_or_create_machine empty_db t0 alice ''AA:BB:CC:DD:EE:FF'' ''Desktop-01'' ''pc'' =
     (Inr desktop, db1) \<and>
   get_or_create_machine db1 t1 alice ''AA:BB:CC:DD:EE:FF'' ''Desktop-01'' ''pc'' =
     (Inr desktop, db1)"
proof -
  have first: "get_or_create_machine empty_db t0 alice ''AA:BB:CC:DD:EE:FF'' ''Desktop-01'' ''pc'' =
     (Inr desktop, db1)"
    by (simp add: get_or_create_machine_def empty_db_def db1_def desktop_def alice_def
        next_id_def Let_def)
  from get_or_create_machine_idempotent[OF first, of t1] first show ?thesis by simp
qed

section \<open>Aggregation\<close>

lemma to_float_in_range:
  assumes "in_double_range v"
  shows "to_float v = map_option Inr (spec_number v)"
  using assms by (cases v) (auto simp: to_float_def in_double_range_def)

lemma to_float_Inr: "to_float v = Some (Inr x) \<Longrightarrow> spec_number v = Some x"
  by (cases v) (auto simp: to_float_def split: if_splits)

lemma to_float_None: "to_float v = None \<Longrightarrow> spec_number v = None"
  by (cases v) (auto simp: to_float_def split: if_splits)

lemma to_float_Inl: "to_float v = Some (Inl e) \<Longrightarrow> e = OverflowError \<and> \<not> in_double_range v"
  by (cases v) (auto simp: to_float_def in_double_range_def split: if_splits)

lemma probe_returns:
  assumes "probe d [''usage'', ''percent'', ''value''] acc = Inr out"
  shows "out = acc @ spec_nested d"
  using assms
  by (auto simp: spec_nested_def split: option.splits sum.splits
      dest: to_float_Inr to_float_None)

lemma probe_in_range:
  assumes "in_double_range (py_get d ''usage'')" and "in_double_range (py_get d ''percent'')"
    and "in_double_range (py_get d ''value'')"
  shows "probe d [''usage'', ''percent'', ''value''] acc = Inr (acc @ spec_nested d)"
  using assms by (simp add: to_float_in_range spec_nested_def split: option.splits)

text \<open>
  Whenever the scan of a record returns, it has added what the specification describes,
  at most one value; it returns on every record that is \<open>readable\<close>, and the only
  exception it raises is \<open>OverflowError\<close>.
\<close>

lemma scan_record_returns:
  assumes "scan_record key acc record = Inr out"
  shows "out = acc @ spec_contribution (py_get (d_metrics record) key)"
proof (cases "to_float (py_get (d_metrics record) key)")
  case None
  then have n: "spec_number (py_get (d_metrics record) key) = None" by (rule to_float_None)
  show ?thesis
  proof (cases "py_get (d_metrics record) key")
    case (JDict d)
    then have "probe d [''usage'', ''percent'', ''value''] acc = Inr out"
      using assms None by (simp add: scan_record_def)
    then have "out = acc @ spec_nested d" by (rule probe_returns)
    then show ?thesis using n JDict by (simp add: spec_contribution_def)
  qed (insert assms None n, simp_all add: scan_record_def spec_contribution_def)
next
  case (Some r)
  then obtain x where r: "r = Inr x" and out: "out = acc @ [x]"
    using assms by (cases r) (simp_all add: scan_record_def)
  have "spec_number (py_get (d_metrics record) key) = Some x"
    using Some r by (simp add: to_float_Inr)
  then show ?thesis using out by (simp add: spec_contribution_def)
qed

lemma scan_record_readable:
  assumes "readable (py_get (d_metrics record) key)"
  shows "scan_record key acc record = Inr (acc @ spec_contribution (py_get (d_metrics record) key))"
proof (cases "py_get (d_metrics record) key")
  case (JDict d)
  then show ?thesis
    using assms probe_in_range[of d acc]
    by (simp add: scan_record_def to_float_def spec_contribution_def readable_def)
qed (insert assms, simp_all add: scan_record_def to_float_def spec_contribution_def readable_def
       split: bool.splits)

lemma spec_contribution_length: "length (spec_contribution v) \<le> 1"
  by (simp add: spec_contribution_def spec_nested_def split: option.splits json.splits)








lemma aggregate_key_empty:
  assumes "collect_values key records = Inr []"
  shows "aggregate_key records key =
           Inr \<lparr>metric = key, minimum = None, maximum = None, average = None\<rparr>"
  using assms by (simp add: aggregate_key_def)

lemma float_overflow_huge: "float_overflow (2 ^ 1024)"
  by (simp add: float_overflow_def)



lemma own_db_huge: "ensure_machine_ownership db_huge ''AA:BB:CC:DD:EE:FF'' alice = Inr desktop"
  by (simp add: ensure_machine_ownership_def db_huge_def desktop_def alice_def)

lemma scan_huge: "scan_record ''cpu'' acc metric_huge = Inl OverflowError"
  using float_overflow_huge by (simp add: scan_record_def metric_huge_def py_get_def to_float_def)

text \<open>
  C6. The scan fails on a record whose value for the key is an integer beyond the range
  of a double: \<^verbatim>\<open>float(value)\<close> raises \<open>OverflowError\<close>, which the route does not catch.
  The specification counts the integer as a numeric scalar to be included directly;
  the code includes nothing and the aggregation ends in the exception. (On every other
  record the scan adds exactly \<open>spec_contribution\<close>, at most one value, see
  \<open>scan_record_returns\<close> and \<open>scan_record_readable\<close>.)
\<close>

theorem scan_record_integer_overflow:
  "py_get (d_metrics metric_huge) ''cpu'' = JInt (2 ^ 1024) \<and>
   spec_contribution (JInt (2 ^ 1024)) = [2 ^ 1024] \<and>
   scan_record ''cpu'' acc metric_huge = Inl OverflowError \<and>
   collect_values ''cpu'' [metric_huge] = Inl OverflowError"
proof (intro conjI)
  show "py_get (d_metrics metric_huge) ''cpu'' = JInt (2 ^ 1024)"
    by (simp add: metric_huge_def py_get_def)
  show "spec_contribution (JInt (2 ^ 1024)) = [2 ^ 1024]"
    by (simp add: spec_contribution_def)
  show "scan_record ''cpu'' acc metric_huge = Inl OverflowError"
    by (rule scan_huge)
  show "collect_values ''cpu'' [metric_huge] = Inl OverflowError"
    by (simp add: collect_values_def scan_huge)
qed

text \<open>
  What the aggregation returns when it returns: one entry per requested key in the
  order requested, and the absent entry for every key whose collected values are empty.
\<close>

lemma aggregate_keys_entries:
  assumes "aggregate_keys records keys = Inr res"
  shows "map metric res = keys \<and>
         (\<forall>i<length keys.
            collect_values (keys ! i) records = Inr [] \<longrightarrow>
            res ! i = \<lparr>metric = keys ! i, minimum = None, maximum = None, average = None\<rparr>)"
  using assms
proof (induction keys arbitrary: res)
  case Nil
  then show ?case by simp
next
  case (Cons k ks)
  from Cons.prems obtain entry entries where entry: "aggregate_key records k = Inr entry"
    and rest: "aggregate_keys records ks = Inr entries" and res: "res = entry # entries"
    by (auto split: sum.splits)
  have m: "metric entry = k"
    using entry by (auto simp: aggregate_key_def split: sum.splits if_splits)
  have e: "collect_values k records = Inr [] \<Longrightarrow>
             entry = \<lparr>metric = k, minimum = None, maximum = None, average = None\<rparr>"
    using entry by (simp add: aggregate_key_def)
  from Cons.IH[OF rest] have ih1: "map metric entries = ks"
    and ih2: "\<And>i. i < length ks \<Longrightarrow> collect_values (ks ! i) records = Inr [] \<Longrightarrow>
            entries ! i = \<lparr>metric = ks ! i, minimum = None, maximum = None, average = None\<rparr>"
    by simp_all
  show ?case
  proof (intro conjI allI impI)
    show "map metric res = k # ks" using res m ih1 by simp
  next
    fix i
    assume "i < length (k # ks)" and "collect_values ((k # ks) ! i) records = Inr []"
    then show "res ! i = \<lparr>metric = (k # ks) ! i, minimum = None, maximum = None, average = None\<rparr>"
      using res e ih2 by (cases i) simp_all
  qed
qed

text \<open>
  C7. The aggregation returns no result at all, where the specification promises one
  entry per requested key: the machine's only record holds an integer beyond the range
  of a double under \<^verbatim>\<open>cpu\<close>. The values collected for \<^verbatim>\<open>gpu\<close> are empty, so its entry
  should be the absent one; the request for \<^verbatim>\<open>gpu\<close> and \<^verbatim>\<open>cpu\<close> ends in
  \<open>OverflowError\<close>. (When the aggregation returns, the entries are as promised, see
  \<open>aggregate_keys_entries\<close>.)
\<close>

theorem aggregate_metrics_integer_overflow:
  "ensure_machine_ownership db_huge ''AA:BB:CC:DD:EE:FF'' alice = Inr desktop \<and>
   collect_values ''gpu'' (machine_records db_huge desktop) = Inr [] \<and>
   aggregate_metrics db_huge ''AA:BB:CC:DD:EE:FF'' [''gpu'', ''cpu''] alice = Inl OverflowError"
proof -
  have recs: "machine_records db_huge desktop = [metric_huge]"
    by (simp add: machine_records_def db_huge_def desktop_def metric_huge_def)
  have gpu: "collect_values ''gpu'' [metric_huge] = Inr []"
    by (simp add: collect_values_def scan_record_def metric_huge_def py_get_def to_float_def)
  have cpu: "collect_values ''cpu'' [metric_huge] = Inl OverflowError"
    by (simp add: collect_values_def scan_huge)
  have "aggregate_keys [metric_huge] [''gpu'', ''cpu''] = Inl OverflowError"
    using gpu cpu by (simp add: aggregate_key_def)
  then show ?thesis
    using own_db_huge recs gpu by (simp add: aggregate_metrics_def)
qed




lemma own_db1: "ensure_machine_ownership db1 ''AA:BB:CC:DD:EE:FF'' alice = Inr desktop"
  by (simp add: ensure_machine_ownership_def db1_def desktop_def alice_def)

section \<open>Metric submission\<close>

lemma payload_mac_not_dict:
  assumes "map_of data ''machine_info'' = Some v" and "\<forall>d. v \<noteq> JDict d"
  shows "payload_mac data = Inl AttributeError"
  using assms by (cases v) (simp_all add: payload_mac_def py_get_default_def)

lemma payload_mac_absent:
  assumes "map_of data ''machine_info'' = None"
  shows "payload_mac data = Inr (py_get data ''mac_address'')"
  using assms by (simp add: payload_mac_def py_get_default_def py_or_def py_get_def)

lemma payload_mac_dict:
  assumes "map_of data ''machine_info'' = Some (JDict info)"
  shows "payload_mac data =
           Inr (if truthy (py_get info ''mac'') then py_get info ''mac''
                else py_get data ''mac_address'')"
  using assms by (simp add: payload_mac_def py_get_default_def py_or_def)

lemma update_machine_status_mac_missing:
  assumes "payload_mac data = Inr mac" and "\<not> truthy mac"
  shows "update_machine_status fromisoformat bind_param column s now reference_id data usr =
           (Inl (HTTPException 400 ''MAC address missing in payload''), s)"
  using assms by (simp add: update_machine_status_def)

text \<open>
  C10. The derivation of the MAC address fails on a payload whose \<^verbatim>\<open>machine_info\<close> is
  present and not a dict. With \<^verbatim>\<open>"machine_info": null\<close> and a MAC address at the top
  level, \<open>update_machine_status\<close> raises \<open>AttributeError\<close>: no fallback to the top
  level, no HTTP 400; nothing is stored. The same payload without the \<^verbatim>\<open>machine_info\<close>
  key is accepted under the top-level MAC address and stored. (The lemmas above give
  the derivation when \<^verbatim>\<open>machine_info\<close> is absent or a dict.)
\<close>

theorem update_machine_status_machine_info_null:
  "update_machine_status fromisoformat bind_param column db1 t1 ''ref-2'' payload_null_info alice =
     (Inl AttributeError, db1) \<and>
   update_machine_status fromisoformat bind_param column db1 t1 ''ref-2'' payload_top_level alice =
     (Inr \<lparr>sr_status = ''success'', sr_reference_id = ''ref-2'', sr_timestamp = column t1\<rparr>,
      db1\<lparr>monitoring :=
        [\<lparr>d_id = 1, d_machine_id = 1, d_timestamp = column t1, d_metrics = payload_top_level,
          d_reference_id = ''ref-2'', d_created_at = column t1, d_updated_at = column t1\<rparr>]\<rparr>)"
proof
  have "payload_mac payload_null_info = Inl AttributeError"
    by (simp add: payload_mac_def payload_null_info_def py_get_default_def)
  then show "update_machine_status fromisoformat bind_param column db1 t1 ''ref-2''
      payload_null_info alice = (Inl AttributeError, db1)"
    by (simp add: update_machine_status_def)
next
  have mac: "payload_mac payload_top_level = Inr (JStr ''AA:BB:CC:DD:EE:FF'')"
    by (simp add: payload_mac_def payload_top_level_def py_get_default_def py_get_def py_or_def)
  have ts: "payload_timestamp fromisoformat t1 payload_top_level = Inr t1"
    by (simp add: payload_timestamp_def payload_top_level_def py_get_def)
  have "monitoring db1 = []" and "m_id desktop = 1"
    by (simp_all add: db1_def desktop_def)
  then show "update_machine_status fromisoformat bind_param column db1 t1 ''ref-2''
      payload_top_level alice =
     (Inr \<lparr>sr_status = ''success'', sr_reference_id = ''ref-2'', sr_timestamp = column t1\<rparr>,
      db1\<lparr>monitoring :=
        [\<lparr>d_id = 1, d_machine_id = 1, d_timestamp = column t1, d_metrics = payload_top_level,
          d_reference_id = ''ref-2'', d_created_at = column t1, d_updated_at = column t1\<rparr>]\<rparr>)"
    using mac ts own_db1
    by (simp add: update_machine_status_def mac_text_def next_id_def Let_def)
qed

lemma str_replace_trailing_Z:
  assumes "CHR ''Z'' \<notin> set body"
  shows "str_replace CHR ''Z'' ''+00:00'' (body @ ''Z'') = body @ ''+00:00''"
proof -
  have "concat (map (\<lambda>x. if x = CHR ''Z'' then ''+00:00'' else [x]) body) = body"
    using assms by (induction body) auto
  then show ?thesis by (simp add: str_replace_def)
qed

lemma payload_timestamp_Z:
  assumes "py_get data ''timestamp'' = JStr (body @ ''Z'')" and "CHR ''Z'' \<notin> set body"
    and "fromisoformat (body @ ''+00:00'') = Some t"
  shows "payload_timestamp fromisoformat now data = Inr t"
  using assms by (simp add: payload_timestamp_def str_replace_trailing_Z)

lemma payload_timestamp_not_string:
  assumes "\<forall>x. py_get data ''timestamp'' \<noteq> JStr x"
  shows "payload_timestamp fromisoformat now data = Inr now"
  using assms by (cases "py_get data ''timestamp''") (simp_all add: payload_timestamp_def)

lemma payload_timestamp_unparseable:
  assumes "py_get data ''timestamp'' = JStr x"
    and "fromisoformat (str_replace CHR ''Z'' ''+00:00'' x) = None"
  shows "payload_timestamp fromisoformat now data = Inl ValueError"
  using assms by (simp add: payload_timestamp_def)

lemma update_machine_status_unparseable:
  assumes "payload_mac data = Inr (JStr mac)" and "mac \<noteq> []"
    and "ensure_machine_ownership s mac usr = Inr machine"
    and "payload_timestamp fromisoformat now data = Inl e"
  shows "update_machine_status fromisoformat bind_param column s now reference_id data usr = (Inl e, s)"
  using assms by (simp add: update_machine_status_def mac_text_def)

lemma parse_t0:
  "fromisoformat_seconds ''2024-05-20T10:33:00+00:00'' = Some t0"
  by (simp add: fromisoformat_seconds_def parse_digits_def days_in_month_def t0_def)

lemma parse_bad:
  "fromisoformat_seconds (str_replace CHR ''Z'' ''+00:00'' ''not-a-date'') = None"
  by (simp add: fromisoformat_seconds_def str_replace_def)

text \<open>
  C4. A timestamp that is a string and does not parse is not replaced by the current
  time: \<^verbatim>\<open>fromisoformat\<close> raises \<open>ValueError\<close>, the route does not catch it, and nothing
  is stored. The current time is stamped only when the payload's timestamp is not a
  string (\<open>payload_timestamp_not_string\<close>). For \<^verbatim>\<open>2024-05-20T10:33:00Z\<close>, with the clock
  at \<open>t1\<close>, the route computes \<open>t0\<close>, 2024-05-20 10:33:00 at offset +00:00, from the
  payload and not from the clock; the row on SQLite, and the response read from it,
  hold these fields without the offset.
\<close>

theorem update_machine_status_unparseable_timestamp:
  "update_machine_status fromisoformat_seconds bind_param column db1 t1 ''ref-2''
     payload_bad_timestamp alice = (Inl ValueError, db1) \<and>
   payload_timestamp fromisoformat_seconds t1 metric_doc = Inr t0 \<and>
   update_machine_status fromisoformat_seconds bind_param sqlite_datetime db1 t1 ''ref-1''
     metric_doc alice =
     (Inr \<lparr>sr_status = ''success'', sr_reference_id = ''ref-1'',
           sr_timestamp = t0\<lparr>dt_tzinfo := None\<rparr>\<rparr>,
      db1\<lparr>monitoring :=
        [\<lparr>d_id = 1, d_machine_id = 1, d_timestamp = t0\<lparr>dt_tzinfo := None\<rparr>,
          d_metrics = metric_doc, d_reference_id = ''ref-1'',
          d_created_at = t1\<lparr>dt_tzinfo := None\<rparr>, d_updated_at = t1\<lparr>dt_tzinfo := None\<rparr>\<rparr>]\<rparr>)"
proof (intro conjI)
  have mac: "payload_mac payload_bad_timestamp = Inr (JStr ''AA:BB:CC:DD:EE:FF'')"
    by (simp add: payload_mac_def payload_bad_timestamp_def py_get_default_def py_get_def py_or_def)
  have "py_get payload_bad_timestamp ''timestamp'' = JStr ''not-a-date''"
    by (simp add: payload_bad_timestamp_def py_get_def)
  then have "payload_timestamp fromisoformat_seconds t1 payload_bad_timestamp = Inl ValueError"
    using parse_bad by (rule payload_timestamp_unparseable)
  with mac own_db1
  show "update_machine_status fromisoformat_seconds bind_param column db1 t1 ''ref-2''
      payload_bad_timestamp alice = (Inl ValueError, db1)"
    by (simp add: update_machine_status_def mac_text_def)
next
  have "py_get metric_doc ''timestamp'' = JStr (''2024-05-20T10:33:00'' @ ''Z'')"
    by (simp add: metric_doc_def py_get_def)
  then show ts: "payload_timestamp fromisoformat_seconds t1 metric_doc = Inr t0"
    by (rule payload_timestamp_Z) (simp_all add: parse_t0)
  have mac: "payload_mac metric_doc = Inr (JStr ''AA:BB:CC:DD:EE:FF'')"
    by (simp add: payload_mac_def metric_doc_def py_get_default_def py_get_def py_or_def)
  have "monitoring db1 = []" and "m_id desktop = 1"
    by (simp_all add: db1_def desktop_def)
  then show "update_machine_status fromisoformat_seconds bind_param sqlite_datetime db1 t1 ''ref-1''
     metric_doc alice =
     (Inr \<lparr>sr_status = ''success'', sr_reference_id = ''ref-1'',
           sr_timestamp = t0\<lparr>dt_tzinfo := None\<rparr>\<rparr>,
      db1\<lparr>monitoring :=
        [\<lparr>d_id = 1, d_machine_id = 1, d_timestamp = t0\<lparr>dt_tzinfo := None\<rparr>,
          d_metrics = metric_doc, d_reference_id = ''ref-1'',
          d_created_at = t1\<lparr>dt_tzinfo := None\<rparr>, d_updated_at = t1\<lparr>dt_tzinfo := None\<rparr>\<rparr>]\<rparr>)"
    using mac ts own_db1
    by (simp add: update_machine_status_def mac_text_def next_id_def Let_def sqlite_datetime_def)
qed

section \<open>Configuration round trip\<close>

lemma first_put:
  "update_machine_config db1 t0 config_int alice =
     (Inr \<lparr>r_status = ''success'', r_data = model_dump config_int, r_updated_at = t0\<rparr>, db_config)"
proof -
  have "p_mac config_int = ''AA:BB:CC:DD:EE:FF''" by (simp add: config_int_def)
  moreover have "configurations db1 = []" by (simp add: db1_def)
  moreover have "m_id desktop = 1" by (simp add: desktop_def)
  ultimately show ?thesis
    using own_db1 by (simp add: update_machine_config_def db_config_def next_id_def Let_def)
qed

lemma dump_eq: "py_eq (JDict (model_dump config_bool)) (JDict (model_dump config_int))"
  by (simp add: model_dump_def config_bool_def config_int_def number_value_def)

lemma dump_neq: "model_dump config_bool \<noteq> model_dump config_int"
  by (simp add: model_dump_def config_bool_def config_int_def)

text \<open>
  Where the round trip holds: when the machine has no configuration yet, or the stored
  document is not equal (Python's \<^verbatim>\<open>==\<close>) to the new one, the write stores the new
  document, whatever was stored before, and the read returns it field for field under
  the aliases of \<open>model_dump\<close>.
\<close>

lemma update_machine_config_round_trip:
  assumes "update_machine_config s now p usr = (Inr res, s')"
    and "\<forall>c. find (\<lambda>c. c_machine_id c = m_id machine) (configurations s) = Some c \<longrightarrow>
           \<not> py_eq (JDict (model_dump p)) (JDict (c_raw_payload c))"
    and "ensure_machine_ownership s (p_mac p) usr = Inr machine"
  shows "r_data res = model_dump p \<and>
         get_machine_config s' (p_mac p) usr =
           Inr \<lparr>cr_data = model_dump p, cr_updated_at = r_updated_at res\<rparr>"
proof (cases "find (\<lambda>c. c_machine_id c = m_id machine) (configurations s)")
  case None
  then have res: "res = \<lparr>r_status = ''success'', r_data = model_dump p, r_updated_at = now\<rparr>"
    and s': "s' = s\<lparr>configurations := configurations s @
        [\<lparr>c_id = next_id (map c_id (configurations s)), c_machine_id = m_id machine,
          c_raw_payload = model_dump p, c_created_at = now, c_updated_at = now\<rparr>]\<rparr>"
    using assms(1,3) by (auto simp: update_machine_config_def Let_def)
  have "find (\<lambda>c. c_machine_id c = m_id machine) (configurations s') =
      Some \<lparr>c_id = next_id (map c_id (configurations s)), c_machine_id = m_id machine,
          c_raw_payload = model_dump p, c_created_at = now, c_updated_at = now\<rparr>"
    unfolding s' using None by (simp add: find_append_new)
  moreover have "ensure_machine_ownership s' (p_mac p) usr = Inr machine"
    using assms(3) unfolding s' by (simp add: ensure_machine_ownership_def)
  ultimately show ?thesis
    using res by (simp add: get_machine_config_def)
next
  case (Some c)
  define upd where
    "upd = (\<lambda>c::machine_configuration. c\<lparr>c_raw_payload := model_dump p, c_updated_at := now\<rparr>)"
  have neq: "\<not> py_eq (JDict (model_dump p)) (JDict (c_raw_payload c))"
    using assms(2) Some by simp
  then have res: "res = \<lparr>r_status = ''success'', r_data = model_dump p, r_updated_at = now\<rparr>"
    and s': "s' = s\<lparr>configurations :=
               map (\<lambda>r. if c_id r = c_id c then upd r else r) (configurations s)\<rparr>"
    using assms(1,3) Some by (auto simp: update_machine_config_def Let_def upd_def)
  have "find (\<lambda>c. c_machine_id c = m_id machine) (configurations s') =
      map_option (\<lambda>r. if c_id r = c_id c then upd r else r)
        (find (\<lambda>c. c_machine_id c = m_id machine) (configurations s))"
    unfolding s' by (simp add: find_map_preserved upd_def)
  then have "find (\<lambda>c. c_machine_id c = m_id machine) (configurations s') = Some (upd c)"
    using Some by simp
  moreover have "ensure_machine_ownership s' (p_mac p) usr = Inr machine"
    using assms(3) unfolding s' by (simp add: ensure_machine_ownership_def)
  ultimately show ?thesis
    using res by (simp add: get_machine_config_def upd_def)
qed

text \<open>
  C8. The round trip and the full replacement fail where the stored document is equal
  to the new one for Python and yet another document. The first write stores a status
  map with \<^verbatim>\<open>CPU\<close> 1 (the state \<open>db_config\<close>). The second write carries \<^verbatim>\<open>CPU\<close>
  \<^verbatim>\<open>true\<close>; since \<^verbatim>\<open>1 == True\<close>, the flush sees no net change and writes nothing: the
  response of the write and the read after it both return the first document, whose
  \<^verbatim>\<open>CPU\<close> is 1, not the document written, and \<open>c_updated_at\<close> stays.
\<close>

theorem update_machine_config_equal_document_not_replaced:
  "update_machine_config db1 t0 config_int alice =
     (Inr \<lparr>r_status = ''success'', r_data = model_dump config_int, r_updated_at = t0\<rparr>, db_config) \<and>
   update_machine_config db_config t1 config_bool alice =
     (Inr \<lparr>r_status = ''success'', r_data = model_dump config_int, r_updated_at = t0\<rparr>, db_config) \<and>
   get_machine_config db_config ''AA:BB:CC:DD:EE:FF'' alice =
     Inr \<lparr>cr_data = model_dump config_int, cr_updated_at = t0\<rparr> \<and>
   py_get (p_status config_bool) ''CPU'' = JBool True \<and>
   py_get (p_status config_int) ''CPU'' = JInt 1 \<and>
   model_dump config_bool \<noteq> model_dump config_int"
proof -
  have own: "ensure_machine_ownership db_config ''AA:BB:CC:DD:EE:FF'' alice = Inr desktop"
    using own_db1 by (simp add: db_config_def ensure_machine_ownership_def)
  have mac: "p_mac config_bool = ''AA:BB:CC:DD:EE:FF''"
    by (simp add: config_bool_def config_int_def)
  have cfg: "find (\<lambda>c. c_machine_id c = m_id desktop) (configurations db_config) =
      Some \<lparr>c_id = 1, c_machine_id = 1, c_raw_payload = model_dump config_int,
       c_created_at = t0, c_updated_at = t0\<rparr>"
    by (simp add: db_config_def desktop_def)
  have second: "update_machine_config db_config t1 config_bool alice =
     (Inr \<lparr>r_status = ''success'', r_data = model_dump config_int, r_updated_at = t0\<rparr>, db_config)"
    using own mac cfg dump_eq by (simp add: update_machine_config_def)
  have get: "get_machine_config db_config ''AA:BB:CC:DD:EE:FF'' alice =
     Inr \<lparr>cr_data = model_dump config_int, cr_updated_at = t0\<rparr>"
    using own cfg by (simp add: get_machine_config_def)
  have "py_get (p_status config_bool) ''CPU'' = JBool True"
    and "py_get (p_status config_int) ''CPU'' = JInt 1"
    by (simp_all add: config_bool_def config_int_def py_get_def)
  with first_put second get dump_neq show ?thesis by simp
qed

section \<open>Metric query\<close>

lemma list_machine_metrics_owned:
  assumes "ensure_machine_ownership s mac usr = Inr machine" and "limit \<le> 1000"
  shows "list_machine_metrics key b s mac start end limit usr =
           (case limit_rows b limit
              (rev (sort_key (\<lambda>r. key (d_timestamp r))
                 (filter (\<lambda>r. d_machine_id r = m_id machine \<and>
                               in_window key start end (d_timestamp r)) (monitoring s)))) of
              Inl e \<Rightarrow> Inl e
            | Inr records \<Rightarrow> Inr (map model_validate records))"
  using assms by (simp add: list_machine_metrics_def Let_def)

lemma newest_first:
  "sorted_wrt (\<lambda>a b. key (d_timestamp b) \<le> key (d_timestamp a))
     (rev (sort_key (\<lambda>r. key (d_timestamp r)) rows))"
proof -
  have "sorted (map (\<lambda>r. key (d_timestamp r)) (sort_key (\<lambda>r. key (d_timestamp r)) rows))"
    by (rule sorted_sort_key)
  then have "sorted_wrt (\<lambda>a b. key (d_timestamp a) \<le> key (d_timestamp b))
     (sort_key (\<lambda>r. key (d_timestamp r)) rows)"
    by (simp add: sorted_map)
  then show ?thesis by (simp add: sorted_wrt_rev)
qed

text \<open>
  For a limit from 0 to 1000 the query returns at most \<open>limit\<close> records of the machine,
  newest first, all inside the window; a limit above 1000 is rejected.
\<close>

lemma list_machine_metrics_in_range:
  assumes "ensure_machine_ownership s mac usr = Inr machine" and "0 \<le> limit" and "limit \<le> 1000"
  shows "\<exists>records. list_machine_metrics key b s mac start end limit usr = Inr records \<and>
           length records \<le> nat limit \<and>
           sorted_wrt (\<lambda>a b. key (mr_timestamp b) \<le> key (mr_timestamp a)) records \<and>
           (\<forall>r\<in>set records. in_window key start end (mr_timestamp r))"
proof -
  let ?rows = "filter (\<lambda>r. d_machine_id r = m_id machine \<and>
                 in_window key start end (d_timestamp r)) (monitoring s)"
  let ?ordered = "rev (sort_key (\<lambda>r. key (d_timestamp r)) ?rows)"
  let ?records = "map model_validate (take (nat limit) ?ordered)"
  have res: "list_machine_metrics key b s mac start end limit usr = Inr ?records"
    using assms by (simp add: list_machine_metrics_owned limit_rows_def)
  have len: "length ?records \<le> nat limit" by simp
  have "sorted_wrt (\<lambda>a b. key (d_timestamp b) \<le> key (d_timestamp a)) (take (nat limit) ?ordered)"
    using newest_first by (rule sorted_wrt_take)
  then have srt: "sorted_wrt (\<lambda>a b. key (mr_timestamp b) \<le> key (mr_timestamp a)) ?records"
    by (simp add: sorted_wrt_map model_validate_def)
  have win: "\<forall>r\<in>set ?records. in_window key start end (mr_timestamp r)"
  proof
    fix r
    assume "r \<in> set ?records"
    then obtain x where x: "x \<in> set (take (nat limit) ?ordered)" and r: "r = model_validate x"
      by (auto simp del: set_rev set_sort)
    from x have "x \<in> set ?ordered" by (rule in_set_takeD)
    then have "in_window key start end (d_timestamp x)" by simp
    then show "in_window key start end (mr_timestamp r)"
      by (simp add: r model_validate_def)
  qed
  from res len srt win show ?thesis by blast
qed

lemma list_machine_metrics_too_large:
  assumes "1000 < limit"
  shows "list_machine_metrics key b s mac start end limit usr = Inl RequestValidationError"
  using assms by (simp add: list_machine_metrics_def)

text \<open>
  C3. The declared bound on \<^verbatim>\<open>limit\<close> is an upper one only (\<^verbatim>\<open>le=1000\<close>). A negative
  limit passes it, and on SQLite \<^verbatim>\<open>LIMIT -1\<close> is no limit: the query returns every
  record of the machine inside the window, however many there are, so neither the
  caller's limit nor the ceiling of 1000 bounds the response.
\<close>

theorem list_machine_metrics_negative_limit:
  assumes "ensure_machine_ownership s mac usr = Inr machine" and "limit < 0"
  shows "\<exists>records. list_machine_metrics key SQLite s mac start end limit usr = Inr records \<and>
           length records =
             length (filter (\<lambda>r. d_machine_id r = m_id machine \<and>
                                  in_window key start end (d_timestamp r)) (monitoring s))"
  using assms by (simp add: list_machine_metrics_owned limit_rows_def)

theorem list_machine_metrics_negative_limit_witness:
  "ensure_machine_ownership db3 ''AA:BB:CC:DD:EE:FF'' alice = Inr desktop \<and>
   list_machine_metrics sqlite_key SQLite db3 ''AA:BB:CC:DD:EE:FF'' None None (- 1) alice =
     Inr [model_validate metric_flags, model_validate metric1]"
proof -
  have own: "ensure_machine_ownership db3 ''AA:BB:CC:DD:EE:FF'' alice = Inr desktop"
    by (simp add: ensure_machine_ownership_def db3_def desktop_def alice_def)
  have "sqlite_key t0 \<le> sqlite_key t1"
    by (simp add: sqlite_key_def t0_def t1_def)
  then have run: "list_machine_metrics sqlite_key SQLite db3 ''AA:BB:CC:DD:EE:FF'' None None (- 1) alice =
     Inr [model_validate metric_flags, model_validate metric1]"
    using own
    by (simp add: list_machine_metrics_owned limit_rows_def db3_def desktop_def metric1_def
        metric_flags_def in_window_def)
  from list_machine_metrics_negative_limit[OF own, of "- 1" sqlite_key None None] own run
  show ?thesis by simp
qed

end
